theory Spec2Isabelle
  imports Main
begin

section \<open>http2struct: binding an HTTP request into a struct\<close>

text \<open>
  The development follows \<^verbatim>\<open>http2struct.go\<close> in the variant that carries the package
  documentation, the \<^verbatim>\<open>file:"binary"\<close> tag and the unconditional \<^verbatim>\<open>SetZero\<close> at the head
  of the field loop (the text after the separator line in \<^verbatim>\<open>src/http2struct.go\<close>); this
  is the variant that the specification describes step by step. The text before the
  separator is an earlier variant: it has a \<^verbatim>\<open>raw\<close> tag in place of \<^verbatim>\<open>file:"binary"\<close>, no
  reset at the head of the loop (its \<^verbatim>\<open>convert\<close> resets the field on the empty string
  instead), and an error where a file part is missing. It is not modelled here.

  The three functions of the source, \<^verbatim>\<open>Convert\<close>, \<^verbatim>\<open>convertBody\<close> and \<^verbatim>\<open>convert\<close>, keep
  their names; the body of the field loop is \<open>Convert_field\<close>, its branches are
  \<open>bind_form\<close>, \<open>bind_file\<close>, \<open>bind_binary\<close>, \<open>bind_header\<close>, \<open>bind_query\<close> and
  \<open>bind_path\<close>. Errors are values; the state that the Go code mutates (the request and
  the destination struct) is passed in and returned.
\<close>

subsection \<open>Reflected types and values\<close>

text \<open>\<^verbatim>\<open>reflect.Kind\<close>.\<close>

datatype kind =
    KInvalid | KBool
  | KInt | KInt8 | KInt16 | KInt32 | KInt64
  | KUint | KUint8 | KUint16 | KUint32 | KUint64 | KUintptr
  | KFloat32 | KFloat64 | KComplex64 | KComplex128
  | KArray | KChan | KFunc | KInterface | KMap | KPointer | KSlice | KString | KStruct
  | KUnsafePointer

text \<open>
  The types a struct field can have. \<open>TFile\<close> is the package's own \<^verbatim>\<open>File\<close> struct;
  \<open>TStruct n\<close> is any other struct type, known by its name only.
\<close>

datatype gotype =
    TBool
  | TInt | TInt8 | TInt16 | TInt32 | TInt64
  | TUint | TUint8 | TUint16 | TUint32 | TUint64 | TUintptr
  | TFloat32 | TFloat64 | TComplex64 | TComplex128
  | TString
  | TSlice gotype
  | TPointer gotype
  | TFile
  | TStruct string
  | TArray gotype
  | TMap gotype gotype
  | TChan gotype
  | TFunc
  | TInterface
  | TUnsafePointer

fun Kind :: "gotype \<Rightarrow> kind" where
  "Kind TBool = KBool"
| "Kind TInt = KInt"
| "Kind TInt8 = KInt8"
| "Kind TInt16 = KInt16"
| "Kind TInt32 = KInt32"
| "Kind TInt64 = KInt64"
| "Kind TUint = KUint"
| "Kind TUint8 = KUint8"
| "Kind TUint16 = KUint16"
| "Kind TUint32 = KUint32"
| "Kind TUint64 = KUint64"
| "Kind TUintptr = KUintptr"
| "Kind TFloat32 = KFloat32"
| "Kind TFloat64 = KFloat64"
| "Kind TComplex64 = KComplex64"
| "Kind TComplex128 = KComplex128"
| "Kind TString = KString"
| "Kind (TSlice t) = KSlice"
| "Kind (TPointer t) = KPointer"
| "Kind TFile = KStruct"
| "Kind (TStruct n) = KStruct"
| "Kind (TArray t) = KArray"
| "Kind (TMap k v) = KMap"
| "Kind (TChan t) = KChan"
| "Kind TFunc = KFunc"
| "Kind TInterface = KInterface"
| "Kind TUnsafePointer = KUnsafePointer"

text \<open>\<^verbatim>\<open>Type.Elem\<close>; the source calls it on slice types only.\<close>

fun Elem :: "gotype \<Rightarrow> gotype" where
  "Elem (TSlice t) = t"
| "Elem (TPointer t) = t"
| "Elem (TArray t) = t"
| "Elem (TChan t) = t"
| "Elem (TMap k v) = v"
| "Elem t = t"

text \<open>
  \<^verbatim>\<open>Type.Bits\<close>; the source calls it on numeric types only. \<^verbatim>\<open>int\<close>, \<^verbatim>\<open>uint\<close> and
  \<^verbatim>\<open>uintptr\<close> are taken at 64 bits.
\<close>

fun Bits :: "gotype \<Rightarrow> nat" where
  "Bits TInt8 = 8"
| "Bits TInt16 = 16"
| "Bits TInt32 = 32"
| "Bits TInt64 = 64"
| "Bits TInt = 64"
| "Bits TUint8 = 8"
| "Bits TUint16 = 16"
| "Bits TUint32 = 32"
| "Bits TUint64 = 64"
| "Bits TUint = 64"
| "Bits TUintptr = 64"
| "Bits TFloat32 = 32"
| "Bits TFloat64 = 64"
| "Bits TComplex64 = 64"
| "Bits TComplex128 = 128"
| "Bits t = 0"

type_synonym byte = char

text \<open>
  The \<^verbatim>\<open>File\<close> struct: \<^verbatim>\<open>Name\<close>, \<^verbatim>\<open>Size\<close> (an \<^verbatim>\<open>int64\<close>) and \<^verbatim>\<open>Content\<close>, where \<open>None\<close> is
  the nil byte slice.
\<close>

datatype File = File string int "byte list option"

text \<open>
  Field values. Floating-point and complex numbers are not interpreted: their
  representations are the type parameters \<open>'f\<close> and \<open>'c\<close>, whose \<open>0\<close> is the zero value.
  \<open>VNil\<close> is the nil slice, pointer, map, channel, function or interface; \<open>VOther None\<close>
  is the zero value of a struct or array type the binder never looks into, and
  \<open>VOther (Some d)\<close> any other value of such a type.
\<close>

datatype ('f, 'c) val =
    VBool bool
  | VInt int
  | VUint nat
  | VFloat 'f
  | VComplex 'c
  | VString string
  | VSlice "('f, 'c) val list"
  | VNil
  | VFile File
  | VPtr "('f, 'c) val"
  | VOther "string option"

text \<open>The zero value of a type (\<^verbatim>\<open>reflect.Zero\<close>, \<^verbatim>\<open>Value.SetZero\<close>).\<close>

fun zero :: "gotype \<Rightarrow> ('f::zero, 'c::zero) val" where
  "zero TBool = VBool False"
| "zero TInt = VInt 0"
| "zero TInt8 = VInt 0"
| "zero TInt16 = VInt 0"
| "zero TInt32 = VInt 0"
| "zero TInt64 = VInt 0"
| "zero TUint = VUint 0"
| "zero TUint8 = VUint 0"
| "zero TUint16 = VUint 0"
| "zero TUint32 = VUint 0"
| "zero TUint64 = VUint 0"
| "zero TUintptr = VUint 0"
| "zero TFloat32 = VFloat 0"
| "zero TFloat64 = VFloat 0"
| "zero TComplex64 = VComplex 0"
| "zero TComplex128 = VComplex 0"
| "zero TString = VString []"
| "zero (TSlice t) = VNil"
| "zero (TPointer t) = VNil"
| "zero TFile = VFile (File [] 0 None)"
| "zero (TStruct n) = VOther None"
| "zero (TArray t) = VOther None"
| "zero (TMap k v) = VNil"
| "zero (TChan t) = VNil"
| "zero TFunc = VNil"
| "zero TInterface = VNil"
| "zero TUnsafePointer = VNil"

subsection \<open>Errors\<close>

text \<open>The two errors of \<^verbatim>\<open>strconv\<close>.\<close>

datatype parse_error = ErrSyntax | ErrRange

text \<open>The binder's sources, named after their struct tags.\<close>

datatype source = SForm | SFile | SHeader | SQuery | SPath

text \<open>
  One constructor for each \<^verbatim>\<open>fmt.Errorf\<close> of the source, with the arguments of its
  format string; errors of the standard library that the model does not look into are
  strings.
\<close>

datatype error =
    RequestNil
  | DestinationNil
  | DestinationNotPointer
  | DestinationNotStruct
  | ConvertBodyFailed error
  | DecodeBodyFailed string
  | ParseFormFailed string
  | ConvertFailed source string string error
  | TypeNotSupported gotype string
  | FormFileFailed string string string
  | ReadFormFileFailed string string string
  | ReadRawBodyFailed string string string
  | SliceElementKindNotSupported kind
  | SliceElementFailed nat error
  | KindNotSupported kind
  | ParseValueFailed kind parse_error

subsection \<open>The string functions of the standard library\<close>

text \<open>
  \<^verbatim>\<open>strings.Split\<close> with a separator of one byte: the parts between the separators, in
  order, one more than there are separators.
\<close>

fun Split :: "string \<Rightarrow> char \<Rightarrow> string list" where
  "Split [] sep = [[]]"
| "Split (c # cs) sep =
     (if c = sep then [] # Split cs sep
      else (c # hd (Split cs sep)) # tl (Split cs sep))"

text \<open>
  \<^verbatim>\<open>strings.Cut\<close> with a separator of one byte: the text before the first separator, the
  text after it, and whether there was one.
\<close>

fun Cut :: "string \<Rightarrow> char \<Rightarrow> string \<times> string \<times> bool" where
  "Cut [] sep = ([], [], False)"
| "Cut (c # cs) sep =
     (if c = sep then ([], cs, True)
      else (case Cut cs sep of (before, after, found) \<Rightarrow> (c # before, after, found)))"

text \<open>
  \<^verbatim>\<open>strings.TrimSpace\<close> removes the leading and the trailing white space, as Unicode
  defines it. \<open>space_runes\<close> lists the white-space characters in UTF-8: tab, line feed,
  vertical tab, form feed, carriage return, space, U+0085, U+00A0, U+1680, U+2000 to
  U+200A, U+2028, U+2029, U+202F, U+205F and U+3000. \<open>trim_runes\<close> drops from the front
  of a string the characters of a list, one after the other.
\<close>

definition space_runes :: "string list" where
  "space_runes =
     [[CHR 0x09], [CHR 0x0A], [CHR 0x0B], [CHR 0x0C], [CHR 0x0D], [CHR 0x20],
      [CHR 0xC2, CHR 0x85], [CHR 0xC2, CHR 0xA0],
      [CHR 0xE1, CHR 0x9A, CHR 0x80],
      [CHR 0xE2, CHR 0x80, CHR 0x80], [CHR 0xE2, CHR 0x80, CHR 0x81],
      [CHR 0xE2, CHR 0x80, CHR 0x82], [CHR 0xE2, CHR 0x80, CHR 0x83],
      [CHR 0xE2, CHR 0x80, CHR 0x84], [CHR 0xE2, CHR 0x80, CHR 0x85],
      [CHR 0xE2, CHR 0x80, CHR 0x86], [CHR 0xE2, CHR 0x80, CHR 0x87],
      [CHR 0xE2, CHR 0x80, CHR 0x88], [CHR 0xE2, CHR 0x80, CHR 0x89],
      [CHR 0xE2, CHR 0x80, CHR 0x8A],
      [CHR 0xE2, CHR 0x80, CHR 0xA8], [CHR 0xE2, CHR 0x80, CHR 0xA9],
      [CHR 0xE2, CHR 0x80, CHR 0xAF],
      [CHR 0xE2, CHR 0x81, CHR 0x9F],
      [CHR 0xE3, CHR 0x80, CHR 0x80]]"

fun trim_runes :: "string list \<Rightarrow> string \<Rightarrow> string" where
  "trim_runes runes [] = []"
| "trim_runes runes (c # cs) =
     (case find (\<lambda>r. take (length r) (c # cs) = r) runes of
        None \<Rightarrow> c # cs
      | Some r \<Rightarrow> trim_runes runes (drop (length r - 1) cs))"

definition TrimSpace :: "string \<Rightarrow> string" where
  "TrimSpace s = rev (trim_runes (map rev space_runes) (rev (trim_runes space_runes s)))"

subsection \<open>Parsing with \<^verbatim>\<open>strconv\<close>\<close>

text \<open>
  \<^verbatim>\<open>strconv.ParseBool\<close>, \<^verbatim>\<open>strconv.ParseUint\<close> and \<^verbatim>\<open>strconv.ParseInt\<close> belong to the Go
  standard library, not to this repository; the source calls the last two with base 10
  and the bit size of the field's type. They are written here as the library documents
  them: the true/false literal forms, and a base-10 integer within the target width,
  with a syntax error for malformed input and a range error for overflow.
\<close>

definition ParseBool :: "string \<Rightarrow> parse_error + bool" where
  "ParseBool str =
     (if str \<in> set [''1'', ''t'', ''T'', ''TRUE'', ''true'', ''True''] then Inr True
      else if str \<in> set [''0'', ''f'', ''F'', ''FALSE'', ''false'', ''False''] then Inr False
      else Inl ErrSyntax)"

definition is_digit :: "char \<Rightarrow> bool" where
  "is_digit c = (48 \<le> (of_char c :: nat) \<and> (of_char c :: nat) \<le> 57)"

definition digit_val :: "char \<Rightarrow> nat" where
  "digit_val c = of_char c - 48"

text \<open>
  The digit loop of \<^verbatim>\<open>ParseUint\<close>: \<open>n\<close> is a \<^verbatim>\<open>uint64\<close>, so the loop stops with a range
  error before \<open>n * 10 + d\<close> could pass \<open>2 ^ 64 - 1\<close>, and when the new value passes the
  largest value of the target width.
\<close>

fun ParseUint_digits :: "nat \<Rightarrow> nat \<Rightarrow> string \<Rightarrow> parse_error + nat" where
  "ParseUint_digits maxVal n [] = Inr n"
| "ParseUint_digits maxVal n (c # cs) =
     (if \<not> is_digit c then Inl ErrSyntax
      else if n \<ge> (2 ^ 64 - 1) div 10 + 1 then Inl ErrRange
      else if n * 10 + digit_val c > 2 ^ 64 - 1 \<or> n * 10 + digit_val c > maxVal
        then Inl ErrRange
      else ParseUint_digits maxVal (n * 10 + digit_val c) cs)"

definition ParseUint :: "string \<Rightarrow> nat \<Rightarrow> parse_error + nat" where
  "ParseUint s bitSize =
     (if s = [] then Inl ErrSyntax else ParseUint_digits (2 ^ bitSize - 1) 0 s)"

definition ParseInt :: "string \<Rightarrow> nat \<Rightarrow> parse_error + int" where
  "ParseInt s bitSize =
     (if s = [] then Inl ErrSyntax
      else
        (case ParseUint (if hd s = CHR ''+'' \<or> hd s = CHR ''-'' then tl s else s) bitSize of
           Inl e \<Rightarrow> Inl e
         | Inr un \<Rightarrow>
             if hd s \<noteq> CHR ''-'' \<and> un \<ge> 2 ^ (bitSize - 1) then Inl ErrRange
             else if hd s = CHR ''-'' \<and> un > 2 ^ (bitSize - 1) then Inl ErrRange
             else Inr (if hd s = CHR ''-'' then - int un else int un)))"

subsection \<open>Struct fields, requests and the standard library\<close>

text \<open>
  A field of the destination struct: what \<^verbatim>\<open>reflect.StructField\<close> tells about it
  (\<^verbatim>\<open>Name\<close>, \<^verbatim>\<open>IsExported\<close>, \<^verbatim>\<open>Type\<close>, and \<^verbatim>\<open>Tag\<close> as the map from a tag's key to its
  value), and whether the field's \<^verbatim>\<open>reflect.Value\<close> can be set.
\<close>

record struct_field =
  Name :: string
  IsExported :: bool
  CanSet :: bool
  Type :: gotype
  Tag :: "string \<rightharpoonup> string"

text \<open>\<^verbatim>\<open>StructTag.Lookup\<close>: the value and whether the key is there.\<close>

definition Lookup :: "(string \<rightharpoonup> string) \<Rightarrow> string \<Rightarrow> string \<times> bool" where
  "Lookup tag key = (case tag key of Some v \<Rightarrow> (v, True) | None \<Rightarrow> ([], False))"

text \<open>
  A body stream: the bytes not read yet, and the error that reading to the end meets,
  if any. \<^verbatim>\<open>io.ReadAll\<close> gives the bytes or that error and leaves nothing to read.
\<close>

record body =
  pending :: "byte list"
  failure :: "string option"

definition ReadAll :: "body \<Rightarrow> (string + byte list) \<times> body" where
  "ReadAll b =
     ((case failure b of Some err \<Rightarrow> Inl err | None \<Rightarrow> Inr (pending b)),
      b\<lparr>pending := []\<rparr>)"

text \<open>
  The request, as far as the binder reads it: \<^verbatim>\<open>ContentLength\<close>, \<^verbatim>\<open>Header.Get\<close>,
  \<^verbatim>\<open>URL.Query().Get\<close>, \<^verbatim>\<open>PathValue\<close>, the \<^verbatim>\<open>PostForm\<close> map (\<open>None\<close> while it is nil) and
  the \<^verbatim>\<open>Body\<close>.
\<close>

record request =
  ContentLength :: int
  Header :: "string \<Rightarrow> string"
  URL_Query :: "string \<Rightarrow> string"
  PathValue :: "string \<Rightarrow> string"
  PostForm :: "(string \<Rightarrow> string list) option"
  Body :: body

text \<open>
  What \<^verbatim>\<open>request.FormFile\<close> followed by \<^verbatim>\<open>io.ReadAll\<close> on the part gives: the error
  \<^verbatim>\<open>http.ErrMissingFile\<close>, another error, or the part's file name and size with the
  error or the bytes of reading it.
\<close>

datatype form_file =
    ErrMissingFile
  | FormFileError string
  | FormFilePart string int "string + byte list"

text \<open>
  The operations of the standard library that the model does not interpret are
  parameters. \<^verbatim>\<open>strconv.ParseFloat\<close> and \<^verbatim>\<open>strconv.ParseComplex\<close> take the text and the
  bit size. \<open>Decode\<close> is \<^verbatim>\<open>json.NewDecoder(request.Body).Decode(destination)\<close>: from the
  body, the struct's fields and their values it gives the error, the values and the body
  afterwards. \<open>ParseMultipartForm\<close> and \<open>FormFile\<close> give their result and the request
  afterwards. \<open>ParseMediaType\<close> is \<^verbatim>\<open>mime.ParseMediaType\<close>.
\<close>

record ('f, 'c) library =
  ParseFloat :: "string \<Rightarrow> nat \<Rightarrow> parse_error + 'f"
  ParseComplex :: "string \<Rightarrow> nat \<Rightarrow> parse_error + 'c"
  Decode :: "body \<Rightarrow> struct_field list \<Rightarrow> (nat \<Rightarrow> ('f, 'c) val)
    \<Rightarrow> string option \<times> (nat \<Rightarrow> ('f, 'c) val) \<times> body"
  ParseMultipartForm :: "request \<Rightarrow> string option \<times> request"
  FormFile :: "request \<Rightarrow> string \<Rightarrow> form_file \<times> request"
  ParseMediaType :: "string \<Rightarrow> string + string \<times> (string \<rightharpoonup> string)"

text \<open>Reading a Go map of strings: the empty string where the key is missing.\<close>

definition index_map :: "(string \<rightharpoonup> string) \<Rightarrow> string \<Rightarrow> string" where
  "index_map m key = (case m key of Some v \<Rightarrow> v | None \<Rightarrow> [])"

subsection \<open>\<^verbatim>\<open>convert\<close>: from a string to a value of the field's type\<close>

text \<open>
  The loop of the slice case: \<open>f\<close> converts one part, \<open>i\<close> is the index of the first part
  of the list. The first failing part ends the loop with its index.
\<close>

fun convert_parts ::
  "(string \<Rightarrow> error + ('f, 'c) val) \<Rightarrow> nat \<Rightarrow> string list \<Rightarrow> error + ('f, 'c) val list" where
  "convert_parts f i [] = Inr []"
| "convert_parts f i (part # parts) =
     (case f part of
        Inl err \<Rightarrow> Inl (SliceElementFailed i err)
      | Inr v \<Rightarrow>
          (case convert_parts f (Suc i) parts of
             Inl err \<Rightarrow> Inl err
           | Inr vs \<Rightarrow> Inr (v # vs)))"

text \<open>
  \<open>convert lib field fieldType value\<close>: \<open>field\<close> is the value the field holds at the
  call, the result is the error or the value the field holds afterwards. The elements
  of a fresh slice hold the zero value of the element type.
\<close>

function convert ::
  "('f::zero, 'c::zero) library \<Rightarrow> ('f, 'c) val \<Rightarrow> gotype \<Rightarrow> string \<Rightarrow> error + ('f, 'c) val" where
  "convert lib field fieldType value =
     (if value = [] then Inr field
      else if Kind fieldType = KBool then
        (case ParseBool value of
           Inl err \<Rightarrow> Inl (ParseValueFailed (Kind fieldType) err)
         | Inr v \<Rightarrow> Inr (VBool v))
      else if Kind fieldType \<in> {KInt, KInt8, KInt16, KInt32, KInt64} then
        (case ParseInt value (Bits fieldType) of
           Inl err \<Rightarrow> Inl (ParseValueFailed (Kind fieldType) err)
         | Inr v \<Rightarrow> Inr (VInt v))
      else if Kind fieldType \<in> {KUint, KUint8, KUint16, KUint32, KUint64, KUintptr} then
        (case ParseUint value (Bits fieldType) of
           Inl err \<Rightarrow> Inl (ParseValueFailed (Kind fieldType) err)
         | Inr v \<Rightarrow> Inr (VUint v))
      else if Kind fieldType \<in> {KFloat32, KFloat64} then
        (case ParseFloat lib value (Bits fieldType) of
           Inl err \<Rightarrow> Inl (ParseValueFailed (Kind fieldType) err)
         | Inr v \<Rightarrow> Inr (VFloat v))
      else if Kind fieldType \<in> {KComplex64, KComplex128} then
        (case ParseComplex lib value (Bits fieldType) of
           Inl err \<Rightarrow> Inl (ParseValueFailed (Kind fieldType) err)
         | Inr v \<Rightarrow> Inr (VComplex v))
      else if Kind fieldType = KSlice then
        (if Kind (Elem fieldType) = KSlice
           then Inl (SliceElementKindNotSupported (Kind (Elem fieldType)))
         else
           (case convert_parts
                   (\<lambda>part. convert lib (zero (Elem fieldType)) (Elem fieldType) part)
                   0 (Split value CHR '','') of
              Inl err \<Rightarrow> Inl err
            | Inr slice \<Rightarrow> Inr (VSlice slice)))
      else if Kind fieldType = KString then Inr (VString value)
      else Inl (KindNotSupported (Kind fieldType)))"
  by pat_completeness auto
termination
  apply (relation "measure (\<lambda>(lib, field, fieldType, value). size fieldType)")
   apply simp
  subgoal for lib field fieldType "value" part
    by (cases fieldType) simp_all
  done

declare convert.simps [simp del]

subsection \<open>\<^verbatim>\<open>convertBody\<close>: the JSON pass\<close>

text \<open>
  The loop of \<^verbatim>\<open>convertBody\<close> over the fields still to visit; \<open>destinationType\<close> is the
  whole list of fields and \<open>destination\<close> the values of the struct. The first exported
  field with a \<^verbatim>\<open>json\<close> tag other than \<^verbatim>\<open>-\<close> decodes the body into the destination and
  ends the loop.
\<close>

fun convertBody_fields ::
  "('f, 'c) library \<Rightarrow> request \<Rightarrow> struct_field list \<Rightarrow> (nat \<Rightarrow> ('f, 'c) val)
    \<Rightarrow> struct_field list \<Rightarrow> error option \<times> request \<times> (nat \<Rightarrow> ('f, 'c) val)" where
  "convertBody_fields lib request destinationType destination [] =
     (None, request, destination)"
| "convertBody_fields lib request destinationType destination (field # rest) =
     (if \<not> IsExported field
        then convertBody_fields lib request destinationType destination rest
      else
        (case Lookup (Tag field) ''json'' of
           (tag, ok) \<Rightarrow>
             if \<not> ok then convertBody_fields lib request destinationType destination rest
             else if tag = ''-''
               then convertBody_fields lib request destinationType destination rest
             else
               (case Decode lib (Body request) destinationType destination of
                  (Some err, destination', body') \<Rightarrow>
                    (Some (DecodeBodyFailed err), request\<lparr>Body := body'\<rparr>, destination')
                | (None, destination', body') \<Rightarrow>
                    (None, request\<lparr>Body := body'\<rparr>, destination'))))"

definition convertBody ::
  "('f, 'c) library \<Rightarrow> request \<Rightarrow> struct_field list \<Rightarrow> (nat \<Rightarrow> ('f, 'c) val)
    \<Rightarrow> error option \<times> request \<times> (nat \<Rightarrow> ('f, 'c) val)" where
  "convertBody lib request destinationType destination =
     (if ContentLength request = 0 then (None, request, destination)
      else if TrimSpace (fst (Cut (Header request ''Content-Type'') CHR '';''))
          \<noteq> ''application/json''
        then (None, request, destination)
      else convertBody_fields lib request destinationType destination destinationType)"

subsection \<open>\<^verbatim>\<open>Convert\<close>: the field loop\<close>

text \<open>
  One pass of the loop body either goes on to the next field (\<^verbatim>\<open>continue\<close>, or the end
  of the body) or leaves \<^verbatim>\<open>Convert\<close> with an error or with \<^verbatim>\<open>nil\<close>; either way it hands
  on the request and the value of the field.
\<close>

datatype ('f, 'c) step =
    Continue request "('f, 'c) val"
  | Return "error option" request "('f, 'c) val"

text \<open>The branch of the \<^verbatim>\<open>form\<close> tag.\<close>

definition bind_form ::
  "('f::zero, 'c::zero) library \<Rightarrow> request \<Rightarrow> struct_field \<Rightarrow> string \<Rightarrow> ('f, 'c) val
    \<Rightarrow> ('f, 'c) step" where
  "bind_form lib request field tag fieldValue =
     (case (if PostForm request = None then ParseMultipartForm lib request
            else (None, request)) of
        (Some err, request') \<Rightarrow> Return (Some (ParseFormFailed err)) request' fieldValue
      | (None, request') \<Rightarrow>
          (case convert lib fieldValue (Type field)
                  (case PostForm request' of
                     None \<Rightarrow> []
                   | Some form \<Rightarrow> (case form tag of [] \<Rightarrow> [] | v # p \<Rightarrow> v)) of
             Inl err \<Rightarrow>
               Return (Some (ConvertFailed SForm tag (Name field) err)) request' fieldValue
           | Inr fieldValue' \<Rightarrow> Continue request' fieldValue'))"

text \<open>The branch of a \<^verbatim>\<open>file\<close> tag other than \<^verbatim>\<open>binary\<close>: a part of a multipart form.\<close>

definition bind_file ::
  "('f, 'c) library \<Rightarrow> request \<Rightarrow> struct_field \<Rightarrow> string \<Rightarrow> ('f, 'c) val
    \<Rightarrow> ('f, 'c) step" where
  "bind_file lib request field tag fieldValue =
     (if Kind (Type field) \<noteq> KPointer \<and> Type field \<noteq> TFile
        then Return (Some (TypeNotSupported (Type field) (Name field))) request fieldValue
      else if Kind (Type field) = KPointer \<and> Type field \<noteq> TPointer TFile
        then Return (Some (TypeNotSupported (Type field) (Name field))) request fieldValue
      else if TrimSpace (fst (Cut (Header request ''Content-Type'') CHR '';''))
          \<noteq> ''multipart/form-data''
        then Continue request fieldValue
      else
        (case FormFile lib request tag of
           (ErrMissingFile, request') \<Rightarrow> Continue request' fieldValue
         | (FormFileError err, request') \<Rightarrow>
             Return (Some (FormFileFailed tag (Name field) err)) request' fieldValue
         | (FormFilePart filename sz (Inl err), request') \<Rightarrow>
             Return (Some (ReadFormFileFailed tag (Name field) err)) request' fieldValue
         | (FormFilePart filename sz (Inr content), request') \<Rightarrow>
             if Kind (Type field) = KPointer
               then Continue request' (VPtr (VFile (File filename sz (Some content))))
             else Continue request' (VFile (File filename sz (Some content)))))"

text \<open>
  The file name of a parsed \<^verbatim>\<open>Content-Disposition\<close>: the parameter \<^verbatim>\<open>filename\<close>, or
  \<^verbatim>\<open>filename*\<close> where that one is empty.
\<close>

definition filename_of :: "(string \<rightharpoonup> string) \<Rightarrow> string" where
  "filename_of params =
     (if index_map params ''filename'' = [] then index_map params ''filename*''
      else index_map params ''filename'')"

text \<open>The branch of the tag \<^verbatim>\<open>file:"binary"\<close>: the whole body as one file.\<close>

definition bind_binary ::
  "('f, 'c) library \<Rightarrow> request \<Rightarrow> struct_field \<Rightarrow> string \<Rightarrow> ('f, 'c) val
    \<Rightarrow> ('f, 'c) step" where
  "bind_binary lib request field tag fieldValue =
     (if Kind (Type field) \<noteq> KPointer \<and> Type field \<noteq> TFile
        then Return (Some (TypeNotSupported (Type field) (Name field))) request fieldValue
      else if Kind (Type field) = KPointer \<and> Type field \<noteq> TPointer TFile
        then Return (Some (TypeNotSupported (Type field) (Name field))) request fieldValue
      else if ContentLength request = 0 then Return None request fieldValue
      else
        (case ParseMediaType lib (Header request ''Content-Disposition'') of
           Inl err \<Rightarrow> Continue request fieldValue
         | Inr (mediatype, params) \<Rightarrow>
             if filename_of params = [] then Continue request fieldValue
             else
               (case ReadAll (Body request) of
                  (Inl err, body') \<Rightarrow>
                    Return (Some (ReadRawBodyFailed tag (Name field) err))
                      (request\<lparr>Body := body'\<rparr>) fieldValue
                | (Inr content, body') \<Rightarrow>
                    if Kind (Type field) = KPointer
                      then Continue (request\<lparr>Body := body'\<rparr>)
                        (VPtr (VFile (File (filename_of params) (ContentLength request)
                          (Some content))))
                    else Continue (request\<lparr>Body := body'\<rparr>)
                        (VFile (File (filename_of params) (ContentLength request)
                          (Some content))))))"

text \<open>The branches of the \<^verbatim>\<open>header\<close>, \<^verbatim>\<open>query\<close> and \<^verbatim>\<open>path\<close> tags.\<close>

definition bind_header ::
  "('f::zero, 'c::zero) library \<Rightarrow> request \<Rightarrow> struct_field \<Rightarrow> string \<Rightarrow> ('f, 'c) val
    \<Rightarrow> ('f, 'c) step" where
  "bind_header lib request field tag fieldValue =
     (case convert lib fieldValue (Type field) (Header request tag) of
        Inl err \<Rightarrow>
          Return (Some (ConvertFailed SHeader tag (Name field) err)) request fieldValue
      | Inr fieldValue' \<Rightarrow> Continue request fieldValue')"

definition bind_query ::
  "('f::zero, 'c::zero) library \<Rightarrow> request \<Rightarrow> struct_field \<Rightarrow> string \<Rightarrow> ('f, 'c) val
    \<Rightarrow> ('f, 'c) step" where
  "bind_query lib request field tag fieldValue =
     (case convert lib fieldValue (Type field) (URL_Query request tag) of
        Inl err \<Rightarrow>
          Return (Some (ConvertFailed SQuery tag (Name field) err)) request fieldValue
      | Inr fieldValue' \<Rightarrow> Continue request fieldValue')"

definition bind_path ::
  "('f::zero, 'c::zero) library \<Rightarrow> request \<Rightarrow> struct_field \<Rightarrow> string \<Rightarrow> ('f, 'c) val
    \<Rightarrow> ('f, 'c) step" where
  "bind_path lib request field tag fieldValue =
     (case convert lib fieldValue (Type field) (PathValue request tag) of
        Inl err \<Rightarrow>
          Return (Some (ConvertFailed SPath tag (Name field) err)) request fieldValue
      | Inr fieldValue' \<Rightarrow> Continue request fieldValue')"

text \<open>
  The body of the loop for one field holding \<open>fieldValue\<close>: the two skips, the reset to
  the zero value, then the tags in the order of the source.
\<close>

definition Convert_field ::
  "('f::zero, 'c::zero) library \<Rightarrow> request \<Rightarrow> struct_field \<Rightarrow> ('f, 'c) val
    \<Rightarrow> ('f, 'c) step" where
  "Convert_field lib request field fieldValue =
     (if \<not> IsExported field then Continue request fieldValue
      else if \<not> CanSet field then Continue request fieldValue
      else
        (case Lookup (Tag field) ''form'' of
           (tag, ok) \<Rightarrow>
             if ok \<and> tag \<noteq> [] \<and> tag \<noteq> ''-''
               then bind_form lib request field tag (zero (Type field))
             else
        (case Lookup (Tag field) ''file'' of
           (tag, ok) \<Rightarrow>
             if ok \<and> tag \<noteq> [] \<and> tag \<noteq> ''-'' \<and> tag \<noteq> ''binary''
               then bind_file lib request field tag (zero (Type field))
             else
        (case Lookup (Tag field) ''file'' of
           (tag, ok) \<Rightarrow>
             if ok \<and> tag = ''binary''
               then bind_binary lib request field tag (zero (Type field))
             else
        (case Lookup (Tag field) ''header'' of
           (tag, ok) \<Rightarrow>
             if ok \<and> tag \<noteq> [] \<and> tag \<noteq> ''-''
               then bind_header lib request field tag (zero (Type field))
             else
        (case Lookup (Tag field) ''query'' of
           (tag, ok) \<Rightarrow>
             if ok \<and> tag \<noteq> [] \<and> tag \<noteq> ''-''
               then bind_query lib request field tag (zero (Type field))
             else
        (case Lookup (Tag field) ''path'' of
           (tag, ok) \<Rightarrow>
             if ok \<and> tag \<noteq> [] \<and> tag \<noteq> ''-''
               then bind_path lib request field tag (zero (Type field))
             else Continue request (zero (Type field)))))))))"

text \<open>
  How the loop ends: it runs out of fields (\<open>Done\<close>, and \<^verbatim>\<open>Convert\<close> goes on to its last
  \<^verbatim>\<open>return nil\<close>), or a \<^verbatim>\<open>return\<close> in the body leaves \<^verbatim>\<open>Convert\<close> with an error or with
  \<^verbatim>\<open>nil\<close>.
\<close>

datatype exit = Done | Returned "error option"

text \<open>
  The loop over the fields from index \<open>i\<close> on; \<open>destination\<close> gives the value of the
  field at each index. A \<^verbatim>\<open>return\<close> in the body leaves the later fields as they are.
\<close>

fun Convert_fields ::
  "('f::zero, 'c::zero) library \<Rightarrow> struct_field list \<Rightarrow> nat \<Rightarrow> request
    \<Rightarrow> (nat \<Rightarrow> ('f, 'c) val) \<Rightarrow> exit \<times> request \<times> (nat \<Rightarrow> ('f, 'c) val)" where
  "Convert_fields lib [] i request destination = (Done, request, destination)"
| "Convert_fields lib (field # rest) i request destination =
     (case Convert_field lib request field (destination i) of
        Continue request' fieldValue \<Rightarrow>
          Convert_fields lib rest (Suc i) request' (destination(i := fieldValue))
      | Return err request' fieldValue \<Rightarrow>
          (Returned err, request', destination(i := fieldValue)))"

text \<open>
  The \<^verbatim>\<open>destination\<close> argument by the checks at the head of \<^verbatim>\<open>Convert\<close>: a nil interface,
  a value that is not a pointer, a pointer to something that is not a struct, or a
  pointer to a struct with its fields and their values.
\<close>

datatype ('f, 'c) destination =
    NilDestination
  | NotPointer
  | PointerToNonStruct
  | PointerToStruct "struct_field list" "nat \<Rightarrow> ('f, 'c) val"

text \<open>\<open>Convert lib request destination\<close>, with \<open>None\<close> for the nil request.\<close>

definition Convert ::
  "('f::zero, 'c::zero) library \<Rightarrow> request option \<Rightarrow> ('f, 'c) destination
    \<Rightarrow> error option \<times> request option \<times> ('f, 'c) destination" where
  "Convert lib request destination =
     (case request of
        None \<Rightarrow> (Some RequestNil, request, destination)
      | Some r \<Rightarrow>
          (case destination of
             NilDestination \<Rightarrow> (Some DestinationNil, request, destination)
           | NotPointer \<Rightarrow> (Some DestinationNotPointer, request, destination)
           | PointerToNonStruct \<Rightarrow> (Some DestinationNotStruct, request, destination)
           | PointerToStruct destinationType v \<Rightarrow>
               (case convertBody lib r destinationType v of
                  (Some err, r', v') \<Rightarrow>
                    (Some (ConvertBodyFailed err), Some r', PointerToStruct destinationType v')
                | (None, r', v') \<Rightarrow>
                    (case Convert_fields lib destinationType 0 r' v' of
                       (Done, r'', v'') \<Rightarrow>
                         (None, Some r'', PointerToStruct destinationType v'')
                     | (Returned err, r'', v'') \<Rightarrow>
                         (err, Some r'', PointerToStruct destinationType v'')))))"

subsection \<open>The precedence of the sources, as the specification words it\<close>

text \<open>
  The specification resolves a field with several tags by the fixed order form, file,
  header, query, path: the first of these tags whose value is neither empty nor \<^verbatim>\<open>-\<close>.
  \<open>chosen_source\<close> is that reading; the loop body above does not use it.
\<close>

fun tag_key :: "source \<Rightarrow> string" where
  "tag_key SForm = ''form''"
| "tag_key SFile = ''file''"
| "tag_key SHeader = ''header''"
| "tag_key SQuery = ''query''"
| "tag_key SPath = ''path''"

definition precedence :: "source list" where
  "precedence = [SForm, SFile, SHeader, SQuery, SPath]"

definition tagged :: "struct_field \<Rightarrow> source \<Rightarrow> bool" where
  "tagged field s =
     (case Tag field (tag_key s) of None \<Rightarrow> False | Some tag \<Rightarrow> tag \<noteq> [] \<and> tag \<noteq> ''-'')"

definition chosen_source :: "struct_field \<Rightarrow> source option" where
  "chosen_source field = find (tagged field) precedence"

text \<open>The branch of the loop body that belongs to a source and its tag value.\<close>

fun bind_from ::
  "('f::zero, 'c::zero) library \<Rightarrow> source \<Rightarrow> request \<Rightarrow> struct_field \<Rightarrow> string
    \<Rightarrow> ('f, 'c) val \<Rightarrow> ('f, 'c) step" where
  "bind_from lib SForm request field tag fieldValue =
     bind_form lib request field tag fieldValue"
| "bind_from lib SFile request field tag fieldValue =
     (if tag = ''binary'' then bind_binary lib request field tag fieldValue
      else bind_file lib request field tag fieldValue)"
| "bind_from lib SHeader request field tag fieldValue =
     bind_header lib request field tag fieldValue"
| "bind_from lib SQuery request field tag fieldValue =
     bind_query lib request field tag fieldValue"
| "bind_from lib SPath request field tag fieldValue =
     bind_path lib request field tag fieldValue"

subsection \<open>When the JSON pass applies, as the specification words it\<close>

text \<open>
  The request declares a content length other than zero, its content type before any
  \<^verbatim>\<open>;\<close> (white space around it left aside) is the JSON media type, and an exported field
  carries a \<^verbatim>\<open>json\<close> tag other than \<^verbatim>\<open>-\<close>.
\<close>

definition json_pass_applies :: "request \<Rightarrow> struct_field list \<Rightarrow> bool" where
  "json_pass_applies request destinationType =
     (ContentLength request \<noteq> 0
      \<and> TrimSpace (fst (Cut (Header request ''Content-Type'') CHR '';'')) = ''application/json''
      \<and> (\<exists>field\<in>set destinationType. IsExported field
            \<and> (case Tag field ''json'' of None \<Rightarrow> False | Some tag \<Rightarrow> tag \<noteq> ''-'')))"

subsection \<open>Inputs for the examples\<close>

text \<open>
  A stand-in for the standard library, for examples that hold no floating-point text, no
  JSON body and no multipart part: the two number parsers reject their input, the decoder
  reads the body to its end and changes nothing, parsing the form gives an empty
  \<^verbatim>\<open>PostForm\<close>, no file part is found, and no media type parses.
\<close>

definition example_library :: "(int, int) library" where
  "example_library =
     \<lparr>ParseFloat = (\<lambda>s bitSize. Inl ErrSyntax),
      ParseComplex = (\<lambda>s bitSize. Inl ErrSyntax),
      Decode = (\<lambda>b destinationType destination. (None, destination, b\<lparr>pending := []\<rparr>)),
      ParseMultipartForm = (\<lambda>r. (None, r\<lparr>PostForm := Some (\<lambda>key. [])\<rparr>)),
      FormFile = (\<lambda>r key. (ErrMissingFile, r)),
      ParseMediaType = (\<lambda>s. Inl ''mime: no media type'')\<rparr>"


text \<open>
  A request without a body: the header \<^verbatim>\<open>X-Page\<close> is 9, the query has \<^verbatim>\<open>page=2\<close>, the
  path value \<^verbatim>\<open>page\<close> is 3, the form was parsed before and holds \<^verbatim>\<open>page=5\<close> and
  \<^verbatim>\<open>page=6\<close>.
\<close>

definition example_request :: request where
  "example_request =
     \<lparr>ContentLength = 0,
      Header = (\<lambda>key. if key = ''X-Page'' then ''9'' else []),
      URL_Query = (\<lambda>key. if key = ''page'' then ''2'' else []),
      PathValue = (\<lambda>key. if key = ''page'' then ''3'' else []),
      PostForm = Some (\<lambda>key. if key = ''page'' then [''5'', ''6''] else []),
      Body = \<lparr>pending = [], failure = None\<rparr>\<rparr>"

text \<open>\<^verbatim>\<open>Page int `form:"page" header:"X-Page" query:"page"`\<close>\<close>

definition page_field :: struct_field where
  "page_field =
     \<lparr>Name = ''Page'', IsExported = True, CanSet = True, Type = TInt,
      Tag = [''form'' \<mapsto> ''page'', ''header'' \<mapsto> ''X-Page'', ''query'' \<mapsto> ''page'']\<rparr>"

text \<open>
  A request with a JSON body of two bytes, and a multipart request whose form holds no
  file part.
\<close>

definition json_request :: request where
  "json_request =
     \<lparr>ContentLength = 2,
      Header = (\<lambda>key. if key = ''Content-Type'' then ''application/json; charset=utf-8''
                     else []),
      URL_Query = (\<lambda>key. []),
      PathValue = (\<lambda>key. []),
      PostForm = None,
      Body = \<lparr>pending = ''{}'', failure = None\<rparr>\<rparr>"

definition multipart_request :: request where
  "multipart_request =
     \<lparr>ContentLength = 44,
      Header = (\<lambda>key. if key = ''Content-Type'' then ''multipart/form-data; boundary=x''
                     else []),
      URL_Query = (\<lambda>key. []),
      PathValue = (\<lambda>key. []),
      PostForm = None,
      Body = \<lparr>pending = [], failure = None\<rparr>\<rparr>"

text \<open>
  \<^verbatim>\<open>Name string `json:"name"`\<close>, \<^verbatim>\<open>Upload File `file:"binary"`\<close>,
  \<^verbatim>\<open>Avatar *File `file:"avatar"`\<close>, \<^verbatim>\<open>Limit int\<close> without a tag,
  \<^verbatim>\<open>Count int `file:"count"`\<close>, \<^verbatim>\<open>Count int `form:"page" file:"count"`\<close> and
  \<^verbatim>\<open>Token string `header:"Authorization"`\<close>.
\<close>

definition name_field :: struct_field where
  "name_field =
     \<lparr>Name = ''Name'', IsExported = True, CanSet = True, Type = TString,
      Tag = [''json'' \<mapsto> ''name'']\<rparr>"

definition upload_field :: struct_field where
  "upload_field =
     \<lparr>Name = ''Upload'', IsExported = True, CanSet = True, Type = TFile,
      Tag = [''file'' \<mapsto> ''binary'']\<rparr>"

definition avatar_field :: struct_field where
  "avatar_field =
     \<lparr>Name = ''Avatar'', IsExported = True, CanSet = True, Type = TPointer TFile,
      Tag = [''file'' \<mapsto> ''avatar'']\<rparr>"

definition limit_field :: struct_field where
  "limit_field =
     \<lparr>Name = ''Limit'', IsExported = True, CanSet = True, Type = TInt, Tag = Map.empty\<rparr>"

definition count_field :: struct_field where
  "count_field =
     \<lparr>Name = ''Count'', IsExported = True, CanSet = True, Type = TInt,
      Tag = [''file'' \<mapsto> ''count'']\<rparr>"

definition count_form_field :: struct_field where
  "count_form_field =
     \<lparr>Name = ''Count'', IsExported = True, CanSet = True, Type = TInt,
      Tag = [''form'' \<mapsto> ''page'', ''file'' \<mapsto> ''count'']\<rparr>"

definition token_field :: struct_field where
  "token_field =
     \<lparr>Name = ''Token'', IsExported = True, CanSet = True, Type = TString,
      Tag = [''header'' \<mapsto> ''Authorization'']\<rparr>"

text \<open>
  Values a caller left in a struct before the bind, by the type of each field: the
  number 7, the text \<^verbatim>\<open>default\<close>, a file of three bytes, a pointer to such a file.
\<close>

fun default_of :: "gotype \<Rightarrow> (int, int) val" where
  "default_of TInt = VInt 7"
| "default_of TString = VString ''default''"
| "default_of TFile = VFile (File ''old.txt'' 3 (Some ''abc''))"
| "default_of (TPointer TFile) = VPtr (VFile (File ''old.txt'' 3 (Some ''abc'')))"
| "default_of t = zero t"

definition caller_values :: "struct_field list \<Rightarrow> nat \<Rightarrow> (int, int) val" where
  "caller_values fs i = (if i < length fs then default_of (Type (fs ! i)) else VNil)"

section \<open>\<^verbatim>\<open>convert\<close> and the claims about it\<close>

lemma convert_empty: "convert lib field fieldType [] = Inr field"
  by (simp add: convert.simps)

lemma convert_slice:
  "value \<noteq> [] \<Longrightarrow> Kind fieldType = KSlice \<Longrightarrow>
   convert lib field fieldType value =
     (if Kind (Elem fieldType) = KSlice
        then Inl (SliceElementKindNotSupported KSlice)
      else
        (case convert_parts
                (\<lambda>part. convert lib (zero (Elem fieldType)) (Elem fieldType) part)
                0 (Split value CHR '','') of
           Inl err \<Rightarrow> Inl err
         | Inr slice \<Rightarrow> Inr (VSlice slice)))"
  by (subst convert.simps) simp

text \<open>
  The loop over the parts succeeds with one value for each part, in the order of the
  parts; it fails at the first part that fails, with that part's index.
\<close>

lemma convert_parts_Inr:
  "convert_parts f i parts = Inr vs \<Longrightarrow>
   length vs = length parts \<and> (\<forall>k<length parts. f (parts ! k) = Inr (vs ! k))"
proof (induction parts arbitrary: i vs)
  case Nil
  then show ?case by simp
next
  case (Cons part parts)
  from Cons.prems obtain v vs' where
    v: "f part = Inr v" and rest: "convert_parts f (Suc i) parts = Inr vs'" and vs: "vs = v # vs'"
    by (auto split: sum.splits)
  from Cons.IH [OF rest] v vs show ?case
    by (auto simp: nth_Cons split: nat.splits)
qed

lemma convert_parts_Inl:
  "convert_parts f i parts = Inl err \<Longrightarrow>
   \<exists>k e. k < length parts \<and> err = SliceElementFailed (i + k) e \<and> f (parts ! k) = Inl e
     \<and> (\<forall>j<k. \<exists>v. f (parts ! j) = Inr v)"
proof (induction parts arbitrary: i)
  case Nil
  then show ?case by simp
next
  case (Cons part parts)
  show ?case
  proof (cases "f part")
    case (Inl e)
    with Cons.prems have "err = SliceElementFailed i e" by simp
    with Inl have "(0::nat) < length (part # parts) \<and> err = SliceElementFailed (i + 0) e
        \<and> f ((part # parts) ! 0) = Inl e \<and> (\<forall>j<(0::nat). \<exists>v. f ((part # parts) ! j) = Inr v)"
      by simp
    then show ?thesis by blast
  next
    case (Inr v)
    with Cons.prems have "convert_parts f (Suc i) parts = Inl err"
      by (simp split: sum.splits)
    from Cons.IH [OF this] obtain k e where
      k: "k < length parts" "err = SliceElementFailed (Suc i + k) e" "f (parts ! k) = Inl e"
        "\<forall>j<k. \<exists>v. f (parts ! j) = Inr v"
      by blast
    have "\<forall>j<Suc k. \<exists>v. f ((part # parts) ! j) = Inr v"
      using Inr k(4) by (auto simp: nth_Cons split: nat.splits)
    with k have "Suc k < length (part # parts) \<and> err = SliceElementFailed (i + Suc k) e
        \<and> f ((part # parts) ! Suc k) = Inl e \<and> (\<forall>j<Suc k. \<exists>v. f ((part # parts) ! j) = Inr v)"
      by simp
    then show ?thesis by blast
  qed
qed

lemma length_Split: "length (Split s sep) = Suc (count_list s sep)"
proof (induction s)
  case Nil
  show ?case by simp
next
  case (Cons c cs)
  have "length (tl (Split cs sep)) = count_list cs sep"
    using Cons.IH by simp
  with Cons.IH show ?case by simp
qed

lemmas parse_defs = ParseInt_def ParseUint_def is_digit_def digit_val_def

lemma convert_123_signed:
  assumes "Kind element \<in> {KInt, KInt8, KInt16, KInt32, KInt64}"
  shows "convert lib field (TSlice element) ''1,2,3'' = Inr (VSlice [VInt 1, VInt 2, VInt 3])"
  using assms by (cases element) (simp_all add: convert.simps parse_defs)

lemma convert_123_unsigned:
  assumes "Kind element \<in> {KUint, KUint8, KUint16, KUint32, KUint64, KUintptr}"
  shows "convert lib field (TSlice element) ''1,2,3'' = Inr (VSlice [VUint 1, VUint 2, VUint 3])"
  using assms by (cases element) (simp_all add: convert.simps parse_defs)

lemma convert_slice_result:
  assumes "value \<noteq> []" and "Kind element \<noteq> KSlice"
  shows "case convert lib field (TSlice element) value of
      Inr v \<Rightarrow>
        (\<exists>slice. v = VSlice slice
          \<and> length slice = length (Split value CHR '','')
          \<and> (\<forall>k<length slice.
                convert lib (zero element) element (Split value CHR '','' ! k) = Inr (slice ! k)))
    | Inl err \<Rightarrow>
        (\<exists>k e. k < length (Split value CHR '','') \<and> err = SliceElementFailed k e
          \<and> convert lib (zero element) element (Split value CHR '','' ! k) = Inl e
          \<and> (\<forall>j<k. \<exists>v. convert lib (zero element) element (Split value CHR '','' ! j) = Inr v))"
proof -
  let ?f = "\<lambda>part. convert lib (zero element) element part"
  let ?parts = "Split value CHR '',''"
  have unfold: "convert lib field (TSlice element) value =
      (case convert_parts ?f 0 ?parts of Inl err \<Rightarrow> Inl err | Inr slice \<Rightarrow> Inr (VSlice slice))"
    using assms by (simp add: convert_slice)
  show ?thesis
  proof (cases "convert_parts ?f 0 ?parts")
    case (Inl err)
    from convert_parts_Inl [OF Inl] show ?thesis
      by (simp add: unfold Inl)
  next
    case (Inr slice)
    from convert_parts_Inr [OF Inr] show ?thesis
      by (simp add: unfold Inr)
  qed
qed

text \<open>
  C3. A slice field with an integer element type bound from \<^verbatim>\<open>"1,2,3"\<close> holds the three
  numbers 1, 2, 3 in this order (signed and unsigned element types alike). Bound from
  the empty string, the field keeps the nil slice of its reset, of length zero, and not a
  slice of one empty string. For every non-empty input and every element type that is
  not itself a slice, a successful conversion gives a slice with one element for each
  comma-separated part (one more than there are commas), the element at each index
  being the conversion of the part at that index; a failed conversion reports the index
  of the first part that fails, with that part's error.
\<close>

theorem slice_conversion:
  "(Kind element \<in> {KInt, KInt8, KInt16, KInt32, KInt64} \<longrightarrow>
      convert lib field (TSlice element) ''1,2,3'' = Inr (VSlice [VInt 1, VInt 2, VInt 3]))
   \<and> (Kind element \<in> {KUint, KUint8, KUint16, KUint32, KUint64, KUintptr} \<longrightarrow>
      convert lib field (TSlice element) ''1,2,3'' = Inr (VSlice [VUint 1, VUint 2, VUint 3]))
   \<and> convert lib (zero (TSlice element)) (TSlice element) [] = Inr VNil
   \<and> (value \<noteq> [] \<and> Kind element \<noteq> KSlice \<longrightarrow>
       length (Split value CHR '','') = Suc (count_list value CHR '','')
       \<and> (case convert lib field (TSlice element) value of
            Inr v \<Rightarrow>
              (\<exists>slice. v = VSlice slice
                \<and> length slice = length (Split value CHR '','')
                \<and> (\<forall>k<length slice.
                      convert lib (zero element) element (Split value CHR '','' ! k)
                        = Inr (slice ! k)))
          | Inl err \<Rightarrow>
              (\<exists>k e. k < length (Split value CHR '','') \<and> err = SliceElementFailed k e
                \<and> convert lib (zero element) element (Split value CHR '','' ! k) = Inl e
                \<and> (\<forall>j<k. \<exists>v. convert lib (zero element) element
                      (Split value CHR '','' ! j) = Inr v))))"
  using convert_123_signed [of element lib field] convert_123_unsigned [of element lib field]
    convert_slice_result [of "value" element lib field]
  by (simp add: convert_empty length_Split)

theorem slice_conversion_witness:
  "convert example_library VNil (TSlice TInt8) ''1,2,3'' = Inr (VSlice [VInt 1, VInt 2, VInt 3])
   \<and> convert example_library VNil (TSlice TUint16) ''1,2,3''
       = Inr (VSlice [VUint 1, VUint 2, VUint 3])
   \<and> convert example_library (zero (TSlice TInt8)) (TSlice TInt8) [] = Inr VNil
   \<and> length (Split ''7,x'' CHR '','') = 2
   \<and> convert example_library VNil (TSlice TInt8) ''7,x''
       = Inl (SliceElementFailed 1 (ParseValueFailed KInt8 ErrSyntax))
   \<and> convert example_library VNil (TSlice TUint16) ''7,8'' = Inr (VSlice [VUint 7, VUint 8])"
  using slice_conversion [of TInt8 example_library VNil "''7,x''"]
    slice_conversion [of TUint16 example_library VNil "''7,8''"]
  by (simp add: convert.simps parse_defs)

text \<open>
  C4, as amended. For a slice type whose element type is a slice, every non-empty input
  is rejected with the same error, which names the element kind and does not depend on
  the input; on the empty input \<^verbatim>\<open>convert\<close> returns before it looks at the type, with no
  error and the field as it was.
\<close>

theorem slice_of_slice_rejected_unless_empty:
  "Kind fieldType = KSlice \<Longrightarrow> Kind (Elem fieldType) = KSlice \<Longrightarrow>
   (value \<noteq> [] \<longrightarrow>
      convert lib field fieldType value = Inl (SliceElementKindNotSupported KSlice))
   \<and> convert lib field fieldType [] = Inr field"
  by (simp add: convert_empty convert_slice)

theorem slice_of_slice_rejected_unless_empty_witness:
  "convert example_library VNil (TSlice (TSlice TInt)) ''1,2''
     = Inl (SliceElementKindNotSupported KSlice)
   \<and> convert example_library VNil (TSlice (TSlice TInt)) [] = Inr VNil"
  using slice_of_slice_rejected_unless_empty
    [of "TSlice (TSlice TInt)" "''1,2''" example_library VNil]
  by simp

text \<open>
  C4 as it is worded fails on the empty string: a field of type \<^verbatim>\<open>[][]int\<close> converts
  the empty input without any error.
\<close>

theorem slice_of_slice_empty_input_counterexample:
  "convert example_library VNil (TSlice (TSlice TInt)) []
     \<noteq> Inl (SliceElementKindNotSupported KSlice)
   \<and> convert example_library VNil (TSlice (TSlice TInt)) [] = Inr VNil"
  by (simp add: convert_empty)

section \<open>Properties of the loop body\<close>

lemma chosen_source_cases:
  "chosen_source field =
     (if tagged field SForm then Some SForm
      else if tagged field SFile then Some SFile
      else if tagged field SHeader then Some SHeader
      else if tagged field SQuery then Some SQuery
      else if tagged field SPath then Some SPath
      else None)"
  by (simp add: chosen_source_def precedence_def)

lemma chosen_source_tagged:
  "chosen_source field = Some s \<Longrightarrow> tagged field s"
  by (auto simp: chosen_source_cases split: if_splits)

lemma Convert_field_skip:
  "\<not> (IsExported field \<and> CanSet field) \<Longrightarrow>
   Convert_field lib request field fieldValue = Continue request fieldValue"
  by (auto simp: Convert_field_def)

text \<open>
  An exported, settable field runs the branch of the source that the precedence
  chooses, on the zero value of its type.
\<close>

lemma Convert_field_chosen:
  assumes "IsExported field" and "CanSet field"
    and "chosen_source field = Some s" and "Tag field (tag_key s) = Some tag"
  shows "Convert_field lib request field fieldValue
     = bind_from lib s request field tag (zero (Type field))"
proof (cases s)
  case SForm
  with assms show ?thesis
    by (simp add: chosen_source_cases tagged_def Convert_field_def Lookup_def split: if_splits)
next
  case SFile
  with assms show ?thesis
    by (auto simp: chosen_source_cases tagged_def Convert_field_def Lookup_def
        split: if_splits option.splits)
next
  case SHeader
  with assms show ?thesis
    by (auto simp: chosen_source_cases tagged_def Convert_field_def Lookup_def
        split: if_splits option.splits)
next
  case SQuery
  with assms show ?thesis
    by (auto simp: chosen_source_cases tagged_def Convert_field_def Lookup_def
        split: if_splits option.splits)
next
  case SPath
  with assms show ?thesis
    by (auto simp: chosen_source_cases tagged_def Convert_field_def Lookup_def
        split: if_splits option.splits)
qed

lemma Convert_field_untagged:
  assumes "IsExported field" and "CanSet field" and "chosen_source field = None"
  shows "Convert_field lib request field fieldValue = Continue request (zero (Type field))"
  using assms
  by (auto simp: chosen_source_cases tagged_def Convert_field_def Lookup_def
      split: if_splits option.splits)

lemma Convert_field_reset:
  assumes "IsExported field" and "CanSet field"
  shows "Convert_field lib request field fieldValue
     = Convert_field lib request field (zero (Type field))"
  using assms by (simp add: Convert_field_def)




section \<open>Properties of the field loop and of the JSON pass\<close>

text \<open>The loop over a list of fields is the loop over its first part, then over the rest.\<close>

lemma Convert_fields_append:
  "Convert_fields lib (pre @ post) i request destination =
     (case Convert_fields lib pre i request destination of
        (Done, request', destination') \<Rightarrow>
          Convert_fields lib post (i + length pre) request' destination'
      | (Returned err, request', destination') \<Rightarrow> (Returned err, request', destination'))"
proof (induction pre arbitrary: i request destination)
  case Nil
  show ?case by simp
next
  case (Cons field pre)
  show ?case
  proof (cases "Convert_field lib request field (destination i)")
    case (Continue r fv)
    have "Convert_fields lib ((field # pre) @ post) i request destination
        = Convert_fields lib (pre @ post) (Suc i) r (destination(i := fv))"
      using Continue by simp
    also have "\<dots> = (case Convert_fields lib pre (Suc i) r (destination(i := fv)) of
        (Done, request', destination') \<Rightarrow>
          Convert_fields lib post (Suc i + length pre) request' destination'
      | (Returned err, request', destination') \<Rightarrow> (Returned err, request', destination'))"
      by (rule Cons.IH)
    also have "Suc i + length pre = i + length (field # pre)"
      by simp
    also have "Convert_fields lib pre (Suc i) r (destination(i := fv))
        = Convert_fields lib (field # pre) i request destination"
      using Continue by simp
    finally show ?thesis .
  next
    case (Return err r fv)
    then show ?thesis by simp
  qed
qed

text \<open>The loop over the fields from index \<open>i\<close> on touches no value outside their indices.\<close>

lemma Convert_fields_frame:
  "Convert_fields lib fs i request destination = (x, request', destination') \<Longrightarrow>
   j < i \<or> i + length fs \<le> j \<Longrightarrow> destination' j = destination j"
proof (induction fs arbitrary: i request destination)
  case Nil
  then show ?case by simp
next
  case (Cons field fs)
  show ?case
  proof (cases "Convert_field lib request field (destination i)")
    case (Continue r fv)
    with Cons.prems(1) have
      "Convert_fields lib fs (Suc i) r (destination(i := fv)) = (x, request', destination')"
      by simp
    from Cons.IH [OF this] Cons.prems(2) show ?thesis by auto
  next
    case (Return err r fv)
    with Cons.prems show ?thesis by auto
  qed
qed

text \<open>
  \<^verbatim>\<open>Convert\<close> at a field that the loop reaches: the JSON pass has not failed and the
  loop over the fields before has run to its end.
\<close>

lemma Convert_reaching:
  assumes "convertBody lib r (pre @ field # post) v = (None, r', v')"
    and "Convert_fields lib pre 0 r' v' = (Done, r1, v1)"
  shows "Convert lib (Some r) (PointerToStruct (pre @ field # post) v) =
     (case Convert_fields lib (field # post) (length pre) r1 v1 of
        (Done, r2, v2) \<Rightarrow> (None, Some r2, PointerToStruct (pre @ field # post) v2)
      | (Returned err, r2, v2) \<Rightarrow> (err, Some r2, PointerToStruct (pre @ field # post) v2))"
  by (simp add: Convert_def assms Convert_fields_append del: Convert_fields.simps)

lemma convertBody_no_length:
  "ContentLength request = 0 \<Longrightarrow>
   convertBody lib request destinationType destination = (None, request, destination)"
  by (simp add: convertBody_def)

lemma convertBody_fields_eq:
  "convertBody_fields lib request destinationType destination fs =
     (if \<exists>field\<in>set fs. IsExported field
           \<and> (case Tag field ''json'' of None \<Rightarrow> False | Some tag \<Rightarrow> tag \<noteq> ''-'')
      then
        (case Decode lib (Body request) destinationType destination of
           (Some err, destination', body') \<Rightarrow>
             (Some (DecodeBodyFailed err), request\<lparr>Body := body'\<rparr>, destination')
         | (None, destination', body') \<Rightarrow> (None, request\<lparr>Body := body'\<rparr>, destination'))
      else (None, request, destination))"
  by (induction fs) (auto simp: Lookup_def split: option.splits)

text \<open>\<^verbatim>\<open>convert\<close> does not call the decoder.\<close>

lemma convert_Decode:
  "convert (lib\<lparr>Decode := d\<rparr>) field fieldType value = convert lib field fieldType value"
proof (induction lib field fieldType "value" rule: convert.induct)
  case (1 lib field fieldType "value")
  show ?case
  proof (cases "value \<noteq> [] \<and> Kind fieldType = KSlice \<and> Kind (Elem fieldType) \<noteq> KSlice")
    case True
    then have "(\<lambda>part. convert (lib\<lparr>Decode := d\<rparr>) (zero (Elem fieldType)) (Elem fieldType) part)
        = (\<lambda>part. convert lib (zero (Elem fieldType)) (Elem fieldType) part)"
      using 1 by auto
    with True show ?thesis by (simp add: convert_slice)
  next
    case False
    then show ?thesis
      by (auto simp: convert.simps [of _ field fieldType "value"])
  qed
qed

section \<open>Facts about the example fields\<close>

lemma token_field_facts:
  "IsExported token_field" "CanSet token_field" "chosen_source token_field = Some SHeader"
  "Tag token_field ''header'' = Some ''Authorization''" "Type token_field = TString"
  by (simp_all add: token_field_def chosen_source_cases tagged_def)

lemma limit_field_facts:
  "IsExported limit_field" "CanSet limit_field" "chosen_source limit_field = None"
  "Type limit_field = TInt"
  by (simp_all add: limit_field_def chosen_source_cases tagged_def)

lemma upload_field_facts:
  "IsExported upload_field" "CanSet upload_field" "chosen_source upload_field = Some SFile"
  "Tag upload_field ''file'' = Some ''binary''" "Type upload_field = TFile"
  by (simp_all add: upload_field_def chosen_source_cases tagged_def)

lemma page_field_facts:
  "IsExported page_field" "CanSet page_field" "chosen_source page_field = Some SForm"
  "Tag page_field ''form'' = Some ''page''" "Type page_field = TInt"
  by (simp_all add: page_field_def chosen_source_cases tagged_def)

lemma Convert_field_page:
  "Convert_field example_library example_request page_field fieldValue
     = Continue example_request (VInt 5)"
  using Convert_field_chosen [OF page_field_facts(1,2,3), of "''page''" example_library
      example_request fieldValue] page_field_facts(4,5)
  by (simp add: bind_form_def example_request_def page_field_def convert.simps parse_defs)

lemma Convert_field_upload:
  "Convert_field example_library example_request upload_field fieldValue
     = Return None example_request (VFile (File [] 0 None))"
  using Convert_field_chosen [OF upload_field_facts(1,2,3), of "''binary''" example_library
      example_request fieldValue] upload_field_facts(4,5)
  by (simp add: bind_binary_def example_request_def)

lemma avatar_field_facts:
  "IsExported avatar_field" "CanSet avatar_field" "chosen_source avatar_field = Some SFile"
  "Tag avatar_field ''file'' = Some ''avatar''" "Type avatar_field = TPointer TFile"
  by (simp_all add: avatar_field_def chosen_source_cases tagged_def)

lemma count_form_field_facts:
  "IsExported count_form_field" "CanSet count_form_field"
  "chosen_source count_form_field = Some SForm"
  "Tag count_form_field ''form'' = Some ''page''" "Type count_form_field = TInt"
  by (simp_all add: count_form_field_def chosen_source_cases tagged_def)

lemma count_field_facts:
  "IsExported count_field" "CanSet count_field" "chosen_source count_field = Some SFile"
  "Type count_field = TInt" "Name count_field = ''Count''"
  by (simp_all add: count_field_def chosen_source_cases tagged_def)

section \<open>The branches of the file tags\<close>

lemma bind_file_type_error:
  "Type field \<noteq> TFile \<Longrightarrow> Type field \<noteq> TPointer TFile \<Longrightarrow>
   bind_file lib request field tag fieldValue
     = Return (Some (TypeNotSupported (Type field) (Name field))) request fieldValue"
  by (auto simp: bind_file_def)

lemma bind_binary_type_error:
  "Type field \<noteq> TFile \<Longrightarrow> Type field \<noteq> TPointer TFile \<Longrightarrow>
   bind_binary lib request field tag fieldValue
     = Return (Some (TypeNotSupported (Type field) (Name field))) request fieldValue"
  by (auto simp: bind_binary_def)

lemma bind_binary_no_length:
  "Type field = TFile \<or> Type field = TPointer TFile \<Longrightarrow> ContentLength request = 0 \<Longrightarrow>
   bind_binary lib request field tag fieldValue = Return None request fieldValue"
  by (auto simp: bind_binary_def)

lemma bind_file_missing:
  "Type field = TFile \<or> Type field = TPointer TFile \<Longrightarrow>
   TrimSpace (fst (Cut (Header request ''Content-Type'') CHR '';'')) = ''multipart/form-data'' \<Longrightarrow>
   FormFile lib request tag = (ErrMissingFile, request') \<Longrightarrow>
   bind_file lib request field tag fieldValue = Continue request' fieldValue"
  by (auto simp: bind_file_def)

section \<open>The decoder and the field loop\<close>

lemma bind_from_Decode:
  "bind_from (lib\<lparr>Decode := d\<rparr>) s request field tag fieldValue
     = bind_from lib s request field tag fieldValue"
  by (cases s)
    (simp_all add: bind_form_def bind_file_def bind_binary_def bind_header_def
      bind_query_def bind_path_def convert_Decode
      cong: prod.case_cong sum.case_cong option.case_cong form_file.case_cong if_cong)

lemma Convert_field_Decode:
  "Convert_field (lib\<lparr>Decode := d\<rparr>) request field fieldValue
     = Convert_field lib request field fieldValue"
proof (cases "IsExported field \<and> CanSet field")
  case False
  then show ?thesis by (simp add: Convert_field_skip)
next
  case True
  then have ok: "IsExported field" "CanSet field" by simp_all
  show ?thesis
  proof (cases "chosen_source field")
    case None
    then show ?thesis by (simp add: Convert_field_untagged [OF ok])
  next
    case (Some s)
    from chosen_source_tagged [OF Some] obtain tag where "Tag field (tag_key s) = Some tag"
      by (auto simp: tagged_def split: option.splits)
    then show ?thesis
      by (simp add: Convert_field_chosen [OF ok Some] bind_from_Decode)
  qed
qed

lemma Convert_fields_Decode:
  "Convert_fields (lib\<lparr>Decode := d\<rparr>) fs i request destination
     = Convert_fields lib fs i request destination"
  by (induction fs arbitrary: i request destination)
    (simp_all add: Convert_field_Decode cong: step.case_cong)

lemma convertBody_eq:
  "convertBody lib request destinationType destination =
     (if json_pass_applies request destinationType then
        (case Decode lib (Body request) destinationType destination of
           (Some err, destination', body') \<Rightarrow>
             (Some (DecodeBodyFailed err), request\<lparr>Body := body'\<rparr>, destination')
         | (None, destination', body') \<Rightarrow> (None, request\<lparr>Body := body'\<rparr>, destination'))
      else (None, request, destination))"
  by (auto simp: convertBody_def json_pass_applies_def convertBody_fields_eq)

section \<open>The claims about \<^verbatim>\<open>Convert\<close>\<close>



text \<open>
  C2. On the empty string \<^verbatim>\<open>convert\<close> returns no error and assigns nothing, for every
  target type and every value the field holds. So an exported, settable field whose
  source (header, query, path or form, as the precedence chooses) yields the empty
  string ends its pass of the loop without an error and at the zero value of its type,
  to which the loop body had reset it. For the form source the form is read after the
  lazy parse, when that parse does not fail.
\<close>

theorem empty_value_leaves_zero:
  assumes "IsExported field" and "CanSet field"
  shows "convert lib fieldValue fieldType [] = Inr fieldValue
   \<and> (\<forall>tag. chosen_source field = Some SHeader \<and> Tag field ''header'' = Some tag
         \<and> Header request tag = [] \<longrightarrow>
       Convert_field lib request field fieldValue = Continue request (zero (Type field)))
   \<and> (\<forall>tag. chosen_source field = Some SQuery \<and> Tag field ''query'' = Some tag
         \<and> URL_Query request tag = [] \<longrightarrow>
       Convert_field lib request field fieldValue = Continue request (zero (Type field)))
   \<and> (\<forall>tag. chosen_source field = Some SPath \<and> Tag field ''path'' = Some tag
         \<and> PathValue request tag = [] \<longrightarrow>
       Convert_field lib request field fieldValue = Continue request (zero (Type field)))
   \<and> (\<forall>tag request'. chosen_source field = Some SForm \<and> Tag field ''form'' = Some tag
         \<and> (if PostForm request = None then ParseMultipartForm lib request
             else (None, request)) = (None, request')
         \<and> (case PostForm request' of
               None \<Rightarrow> []
             | Some form \<Rightarrow> (case form tag of [] \<Rightarrow> [] | v # p \<Rightarrow> v)) = [] \<longrightarrow>
       Convert_field lib request field fieldValue = Continue request' (zero (Type field)))"
proof -
  have header: "Convert_field lib request field fieldValue = Continue request (zero (Type field))"
    if "chosen_source field = Some SHeader" "Tag field ''header'' = Some tag"
      "Header request tag = []" for tag
    using Convert_field_chosen [OF assms that(1), of tag lib request fieldValue] that(2,3)
    by (simp add: bind_header_def convert_empty)
  have query: "Convert_field lib request field fieldValue = Continue request (zero (Type field))"
    if "chosen_source field = Some SQuery" "Tag field ''query'' = Some tag"
      "URL_Query request tag = []" for tag
    using Convert_field_chosen [OF assms that(1), of tag lib request fieldValue] that(2,3)
    by (simp add: bind_query_def convert_empty)
  have path: "Convert_field lib request field fieldValue = Continue request (zero (Type field))"
    if "chosen_source field = Some SPath" "Tag field ''path'' = Some tag"
      "PathValue request tag = []" for tag
    using Convert_field_chosen [OF assms that(1), of tag lib request fieldValue] that(2,3)
    by (simp add: bind_path_def convert_empty)
  have form: "Convert_field lib request field fieldValue = Continue request' (zero (Type field))"
    if "chosen_source field = Some SForm" "Tag field ''form'' = Some tag"
      "(if PostForm request = None then ParseMultipartForm lib request
        else (None, request)) = (None, request')"
      "(case PostForm request' of
          None \<Rightarrow> []
        | Some form \<Rightarrow> (case form tag of [] \<Rightarrow> [] | v # p \<Rightarrow> v)) = []" for tag request'
    using Convert_field_chosen [OF assms that(1), of tag lib request fieldValue] that(2,3,4)
    by (simp add: bind_form_def convert_empty)
  show ?thesis
    using header query path form by (simp add: convert_empty)
qed

theorem empty_value_leaves_zero_witness:
  "Header example_request ''Authorization'' = []
   \<and> Convert_field example_library example_request token_field (VString ''default'')
       = Continue example_request (VString [])"
  using empty_value_leaves_zero [OF token_field_facts(1,2),
      where lib = example_library and request = example_request
        and fieldValue = "VString ''default''"]
    token_field_facts(3,4,5)
  by (simp add: example_request_def)

text \<open>
  C5. \<^verbatim>\<open>Convert\<close> on a request and a pointer to a struct: when the content length is not
  zero, the content type before any \<^verbatim>\<open>;\<close> is the JSON media type (white space around it
  left aside) and an exported field carries a \<^verbatim>\<open>json\<close> tag other than \<^verbatim>\<open>-\<close>, the body is
  decoded into the destination, once and before the field loop, which starts from what
  the decoder left; a decode error ends the bind with that error and the loop does not
  run. Otherwise the loop starts from the request and the destination as they came: the
  body is not read. The loop itself never calls the decoder.
\<close>

theorem json_pass_once_before_fields:
  "Convert lib (Some request) (PointerToStruct destinationType destination) =
     (if json_pass_applies request destinationType then
        (case Decode lib (Body request) destinationType destination of
           (Some err, destination', body') \<Rightarrow>
             (Some (ConvertBodyFailed (DecodeBodyFailed err)), Some (request\<lparr>Body := body'\<rparr>),
              PointerToStruct destinationType destination')
         | (None, destination', body') \<Rightarrow>
             (case Convert_fields lib destinationType 0 (request\<lparr>Body := body'\<rparr>) destination' of
                (Done, r, v) \<Rightarrow> (None, Some r, PointerToStruct destinationType v)
              | (Returned err, r, v) \<Rightarrow> (err, Some r, PointerToStruct destinationType v)))
      else
        (case Convert_fields lib destinationType 0 request destination of
           (Done, r, v) \<Rightarrow> (None, Some r, PointerToStruct destinationType v)
         | (Returned err, r, v) \<Rightarrow> (err, Some r, PointerToStruct destinationType v)))
   \<and> (\<forall>decode i r v. Convert_fields (lib\<lparr>Decode := decode\<rparr>) destinationType i r v
         = Convert_fields lib destinationType i r v)"
  by (simp add: Convert_def convertBody_eq Convert_fields_Decode split: prod.splits option.splits)

theorem json_pass_once_before_fields_witness:
  "json_pass_applies json_request [name_field]
   \<and> Convert example_library (Some json_request) (PointerToStruct [name_field] (caller_values [name_field]))
       = (None, Some (json_request\<lparr>Body := \<lparr>pending = [], failure = None\<rparr>\<rparr>),
          PointerToStruct [name_field] ((caller_values [name_field])(0 := VString [])))
   \<and> \<not> json_pass_applies example_request [name_field]
   \<and> Convert example_library (Some example_request) (PointerToStruct [name_field] (caller_values [name_field]))
       = (None, Some example_request,
          PointerToStruct [name_field] ((caller_values [name_field])(0 := VString [])))"
proof -
  have applies: "json_pass_applies json_request [name_field]"
    by (simp add: json_pass_applies_def json_request_def name_field_def TrimSpace_def
        space_runes_def)
  have not_applies: "\<not> json_pass_applies example_request [name_field]"
    by (simp add: json_pass_applies_def example_request_def)
  have untagged: "IsExported name_field" "CanSet name_field" "chosen_source name_field = None"
    "Type name_field = TString"
    by (simp_all add: name_field_def chosen_source_cases tagged_def)
  have loop: "Convert_fields example_library [name_field] 0 r v
      = (Done, r, v(0 := VString []))" for r v
    by (simp add: Convert_field_untagged [OF untagged(1,2,3)] untagged(4))
  have decode: "Decode example_library (Body json_request) [name_field] v
      = (None, v, \<lparr>pending = [], failure = None\<rparr>)" for v
    by (simp add: example_library_def json_request_def)
  from json_pass_once_before_fields
      [of example_library json_request "[name_field]" "caller_values [name_field]"]
    json_pass_once_before_fields
      [of example_library example_request "[name_field]" "caller_values [name_field]"]
    applies not_applies
  show ?thesis
    by (simp add: loop decode del: Convert_fields.simps)
qed

text \<open>
  The reset at the head of the loop body: the outcome of a pass is the one for a field
  that held the zero value, a field without a usable source tag is at its zero value
  after its pass, and a field that the loop visits and that has no usable source tag
  holds its zero value at the end of the bind.
\<close>

lemma reset_at_loop_head:
  assumes "IsExported field" and "CanSet field"
  shows "Convert_field lib request field fieldValue
       = Convert_field lib request field (zero (Type field))
   \<and> (chosen_source field = None \<longrightarrow>
       Convert_field lib request field fieldValue = Continue request (zero (Type field)))
   \<and> (\<forall>pre post r v r' v' r1 v1 err r2 d2.
        chosen_source field = None
        \<and> convertBody lib r (pre @ field # post) v = (None, r', v')
        \<and> Convert_fields lib pre 0 r' v' = (Done, r1, v1)
        \<and> Convert lib (Some r) (PointerToStruct (pre @ field # post) v) = (err, r2, d2) \<longrightarrow>
        (\<exists>v2. d2 = PointerToStruct (pre @ field # post) v2
           \<and> v2 (length pre) = zero (Type field)))"
proof -
  have whole: "\<exists>v2. d2 = PointerToStruct (pre @ field # post) v2
      \<and> v2 (length pre) = zero (Type field)"
    if none: "chosen_source field = None"
      and body: "convertBody lib r (pre @ field # post) v = (None, r', v')"
      and before: "Convert_fields lib pre 0 r' v' = (Done, r1, v1)"
      and result: "Convert lib (Some r) (PointerToStruct (pre @ field # post) v) = (err, r2, d2)"
    for pre post r v r' v' r1 v1 err r2 d2
  proof -
    obtain x r3 v3 where
      rest: "Convert_fields lib post (Suc (length pre)) r1 (v1(length pre := zero (Type field)))
        = (x, r3, v3)"
      by (metis prod_cases3)
    from Convert_fields_frame [OF rest, of "length pre"]
    have kept: "v3 (length pre) = zero (Type field)"
      by simp
    have "Convert_fields lib (field # post) (length pre) r1 v1 = (x, r3, v3)"
      using rest by (simp add: Convert_field_untagged [OF assms none])
    with Convert_reaching [OF body before] result
    have "d2 = PointerToStruct (pre @ field # post) v3"
      by (cases x) auto
    with kept show ?thesis by blast
  qed
  show ?thesis
    using Convert_field_reset [OF assms, of lib request fieldValue]
      Convert_field_untagged [OF assms, of lib request fieldValue] whole
    by blast
qed

text \<open>
  C6. The code breaks the claim where the branch of \<^verbatim>\<open>file:"binary"\<close> leaves \<^verbatim>\<open>Convert\<close>
  with \<^verbatim>\<open>return nil\<close> on a content length of zero (the other exits of the file branches
  that bind nothing go on with \<^verbatim>\<open>continue\<close>): with \<^verbatim>\<open>Upload File `file:"binary"`\<close>
  declared before \<^verbatim>\<open>Limit int\<close> and a request without a body, the bind succeeds, the
  loop never visits \<^verbatim>\<open>Limit\<close>, and \<^verbatim>\<open>Limit\<close> still holds the 7 of the caller, not 0.
\<close>

theorem binary_early_return_leaves_default:
  "Convert example_library (Some example_request)
      (PointerToStruct [upload_field, limit_field] (caller_values [upload_field, limit_field]))
     = (None, Some example_request,
        PointerToStruct [upload_field, limit_field]
          ((caller_values [upload_field, limit_field])(0 := VFile (File [] 0 None))))
   \<and> IsExported limit_field \<and> CanSet limit_field \<and> chosen_source limit_field = None
   \<and> ((caller_values [upload_field, limit_field])(0 := VFile (File [] 0 None))) 1 = VInt 7
   \<and> zero (Type limit_field) = (VInt 0 :: (int, int) val)"
proof -
  let ?v = "caller_values [upload_field, limit_field]"
  have "convertBody example_library example_request [upload_field, limit_field] ?v
      = (None, example_request, ?v)"
    by (simp add: convertBody_no_length example_request_def)
  then have "Convert example_library (Some example_request)
      (PointerToStruct [upload_field, limit_field] ?v)
     = (None, Some example_request,
        PointerToStruct [upload_field, limit_field] (?v(0 := VFile (File [] 0 None))))"
    by (simp add: Convert_def Convert_field_upload)
  then show ?thesis
    by (simp add: limit_field_facts caller_values_def)
qed

text \<open>
  C7. For an exported, settable field of type \<^verbatim>\<open>File\<close> or \<^verbatim>\<open>*File\<close> whose chosen source
  is a \<^verbatim>\<open>file\<close> tag other than \<^verbatim>\<open>binary\<close>: when the request is multipart and
  \<^verbatim>\<open>FormFile\<close> finds no part of that name (\<^verbatim>\<open>http.ErrMissingFile\<close>), the pass leaves the
  field at its zero value without an error, and the loop goes on with the next field.
\<close>

theorem missing_file_part_is_no_error:
  assumes "IsExported field" and "CanSet field"
    and "chosen_source field = Some SFile"
    and "Tag field ''file'' = Some tag" and "tag \<noteq> ''binary''"
    and "Type field = TFile \<or> Type field = TPointer TFile"
    and "TrimSpace (fst (Cut (Header request ''Content-Type'') CHR '';''))
      = ''multipart/form-data''"
    and "FormFile lib request tag = (ErrMissingFile, request')"
  shows "Convert_field lib request field fieldValue = Continue request' (zero (Type field))
   \<and> Convert_fields lib (field # rest) i request destination
       = Convert_fields lib rest (Suc i) request' (destination(i := zero (Type field)))"
proof -
  have "Convert_field lib request field fv = Continue request' (zero (Type field))" for fv
    using Convert_field_chosen [OF assms(1,2,3), of tag lib request fv] assms(4,5)
    by (simp add: bind_file_missing [OF assms(6,7,8)])
  then show ?thesis by simp
qed

theorem missing_file_part_is_no_error_witness:
  "FormFile example_library multipart_request ''avatar'' = (ErrMissingFile, multipart_request)
   \<and> Convert_field example_library multipart_request avatar_field
        (VPtr (VFile (File ''old.txt'' 3 (Some ''abc''))))
       = Continue multipart_request VNil
   \<and> Convert_fields example_library [avatar_field, limit_field] 0 multipart_request
        (caller_values [avatar_field, limit_field])
       = (Done, multipart_request,
          (caller_values [avatar_field, limit_field])(0 := VNil, 1 := VInt 0))"
proof -
  have multipart: "TrimSpace (fst (Cut (Header multipart_request ''Content-Type'') CHR '';''))
      = ''multipart/form-data''"
    by (simp add: multipart_request_def TrimSpace_def space_runes_def)
  have missing: "FormFile example_library multipart_request ''avatar''
      = (ErrMissingFile, multipart_request)"
    by (simp add: example_library_def)
  have kind: "Type avatar_field = TFile \<or> Type avatar_field = TPointer TFile"
    by (simp add: avatar_field_facts)
  have "''avatar'' \<noteq> ''binary''" by simp
  from missing_file_part_is_no_error [OF avatar_field_facts(1,2,3,4) this kind multipart missing,
      of _ "[limit_field]" 0 "caller_values [avatar_field, limit_field]"]
  show ?thesis
    by (simp add: missing avatar_field_facts(5)
        Convert_field_untagged [OF limit_field_facts(1,2,3)] limit_field_facts(4))
qed

text \<open>
  C8. For an exported, settable field of type \<^verbatim>\<open>File\<close> or \<^verbatim>\<open>*File\<close> with the tag
  \<^verbatim>\<open>file:"binary"\<close> and a request whose content length is zero: the binary branch
  returns \<^verbatim>\<open>nil\<close> and leaves the field as it found it; the field then holds the zero
  value of the reset at the head of the loop body; and \<^verbatim>\<open>Convert\<close> on a struct that
  starts with this field returns without an error.
\<close>

theorem binary_without_length_keeps_field:
  assumes "IsExported field" and "CanSet field"
    and "chosen_source field = Some SFile" and "Tag field ''file'' = Some ''binary''"
    and "Type field = TFile \<or> Type field = TPointer TFile"
    and "ContentLength request = 0"
  shows "bind_binary lib request field ''binary'' fieldValue = Return None request fieldValue
   \<and> Convert_field lib request field fieldValue = Return None request (zero (Type field))
   \<and> Convert lib (Some request) (PointerToStruct (field # rest) destination)
       = (None, Some request,
          PointerToStruct (field # rest) (destination(0 := zero (Type field))))"
proof -
  have step: "Convert_field lib request field fv = Return None request (zero (Type field))"
    for fv
    using Convert_field_chosen [OF assms(1,2,3), of "''binary''" lib request fv] assms(4)
    by (simp add: bind_binary_no_length [OF assms(5,6)])
  have "convertBody lib request (field # rest) destination = (None, request, destination)"
    by (rule convertBody_no_length [OF assms(6)])
  then have "Convert lib (Some request) (PointerToStruct (field # rest) destination)
       = (None, Some request,
          PointerToStruct (field # rest) (destination(0 := zero (Type field))))"
    by (simp add: Convert_def step)
  with step show ?thesis
    by (simp add: bind_binary_no_length [OF assms(5,6)])
qed

theorem binary_without_length_keeps_field_witness:
  "ContentLength example_request = 0
   \<and> bind_binary example_library example_request upload_field ''binary''
        (VFile (File ''old.txt'' 3 (Some ''abc'')))
       = Return None example_request (VFile (File ''old.txt'' 3 (Some ''abc'')))
   \<and> Convert_field example_library example_request upload_field
        (VFile (File ''old.txt'' 3 (Some ''abc'')))
       = Return None example_request (VFile (File [] 0 None))
   \<and> Convert example_library (Some example_request)
        (PointerToStruct [upload_field, token_field] (caller_values [upload_field, token_field]))
       = (None, Some example_request,
          PointerToStruct [upload_field, token_field]
            ((caller_values [upload_field, token_field])(0 := VFile (File [] 0 None))))"
proof -
  have len: "ContentLength example_request = 0"
    by (simp add: example_request_def)
  have kind: "Type upload_field = TFile \<or> Type upload_field = TPointer TFile"
    by (simp add: upload_field_facts)
  from binary_without_length_keeps_field [OF upload_field_facts(1,2,3,4) kind len,
      of example_library _ "[token_field]" "caller_values [upload_field, token_field]"]
  show ?thesis
    by (simp add: len upload_field_facts(5))
qed

text \<open>
  C9. When the loop reaches such a \<^verbatim>\<open>file:"binary"\<close> field (the passes over the fields
  before it have run to their end) and the content length is zero, \<^verbatim>\<open>Convert\<close> returns
  \<^verbatim>\<open>nil\<close> at once: every field declared after it holds the value the caller had left
  there, neither reset nor bound.
\<close>

theorem binary_without_length_ends_the_bind:
  assumes "IsExported field" and "CanSet field"
    and "chosen_source field = Some SFile" and "Tag field ''file'' = Some ''binary''"
    and "Type field = TFile \<or> Type field = TPointer TFile"
    and "ContentLength request = 0"
    and "Convert_fields lib pre 0 request destination = (Done, r1, v1)"
    and "ContentLength r1 = 0"
  shows "Convert lib (Some request) (PointerToStruct (pre @ field # post) destination)
       = (None, Some r1,
          PointerToStruct (pre @ field # post) (v1(length pre := zero (Type field))))
   \<and> (\<forall>j>length pre. (v1(length pre := zero (Type field))) j = destination j)"
proof -
  have step: "Convert_field lib r1 field fv = Return None r1 (zero (Type field))" for fv
    using Convert_field_chosen [OF assms(1,2,3), of "''binary''" lib r1 fv] assms(4)
    by (simp add: bind_binary_no_length [OF assms(5,8)])
  have body: "convertBody lib request (pre @ field # post) destination
      = (None, request, destination)"
    by (rule convertBody_no_length [OF assms(6)])
  have later: "v1 j = destination j" if "length pre < j" for j
    using Convert_fields_frame [OF assms(7), of j] that by simp
  from Convert_reaching [OF body assms(7)] later show ?thesis
    by (simp add: step)
qed

theorem binary_without_length_ends_the_bind_witness:
  "Convert example_library (Some example_request)
      (PointerToStruct [page_field, upload_field, token_field, limit_field]
         (caller_values [page_field, upload_field, token_field, limit_field]))
     = (None, Some example_request,
        PointerToStruct [page_field, upload_field, token_field, limit_field]
          ((caller_values [page_field, upload_field, token_field, limit_field])
             (0 := VInt 5, 1 := VFile (File [] 0 None))))
   \<and> ((caller_values [page_field, upload_field, token_field, limit_field])
         (0 := VInt 5, 1 := VFile (File [] 0 None))) 2 = VString ''default''
   \<and> ((caller_values [page_field, upload_field, token_field, limit_field])
         (0 := VInt 5, 1 := VFile (File [] 0 None))) 3 = VInt 7"
proof -
  let ?v = "caller_values [page_field, upload_field, token_field, limit_field]"
  have len: "ContentLength example_request = 0"
    by (simp add: example_request_def)
  have kind: "Type upload_field = TFile \<or> Type upload_field = TPointer TFile"
    by (simp add: upload_field_facts)
  have before: "Convert_fields example_library [page_field] 0 example_request ?v
      = (Done, example_request, ?v(0 := VInt 5))"
    by (simp add: Convert_field_page)
  have later: "?v 2 = VString ''default''" "?v 3 = VInt 7"
    by (simp_all add: caller_values_def token_field_facts limit_field_facts)
  from binary_without_length_ends_the_bind
      [OF upload_field_facts(1,2,3,4) kind len before len, of "[token_field, limit_field]"]
    later
  show ?thesis
    by (simp add: upload_field_facts(5))
qed

text \<open>
  C10, as amended. For an exported, settable field whose chosen source is a \<^verbatim>\<open>file\<close> tag
  (a part's name or \<^verbatim>\<open>binary\<close>) and whose type is neither \<^verbatim>\<open>File\<close> nor \<^verbatim>\<open>*File\<close>: the
  pass over the field returns the unsupported-type error for every request and every
  library, before the content type, the form or the body is looked at, and the loop
  that arrives at the field ends with that error. \<^verbatim>\<open>Convert\<close> on a struct that begins
  with the field returns that error for every request on which the JSON pass does not
  fail, so for every request without a body.
\<close>

theorem file_tag_on_other_type_is_rejected:
  assumes "IsExported field" and "CanSet field"
    and "chosen_source field = Some SFile"
    and "Type field \<noteq> TFile" and "Type field \<noteq> TPointer TFile"
  shows "Convert_field lib request field fieldValue
       = Return (Some (TypeNotSupported (Type field) (Name field))) request (zero (Type field))
   \<and> Convert_fields lib (field # rest) i request destination
       = (Returned (Some (TypeNotSupported (Type field) (Name field))), request,
          destination(i := zero (Type field)))
   \<and> Convert lib (Some request) (PointerToStruct (field # rest) destination)
       = (case convertBody lib request (field # rest) destination of
            (Some err, r', v') \<Rightarrow>
              (Some (ConvertBodyFailed err), Some r', PointerToStruct (field # rest) v')
          | (None, r', v') \<Rightarrow>
              (Some (TypeNotSupported (Type field) (Name field)), Some r',
               PointerToStruct (field # rest) (v'(0 := zero (Type field)))))
   \<and> (ContentLength request = 0 \<longrightarrow>
        Convert lib (Some request) (PointerToStruct (field # rest) destination)
          = (Some (TypeNotSupported (Type field) (Name field)), Some request,
             PointerToStruct (field # rest) (destination(0 := zero (Type field)))))"
proof -
  from chosen_source_tagged [OF assms(3)] obtain tag where tag: "Tag field ''file'' = Some tag"
    by (auto simp: tagged_def split: option.splits)
  have step: "Convert_field lib r field fv
      = Return (Some (TypeNotSupported (Type field) (Name field))) r (zero (Type field))"
    for fv r
    using Convert_field_chosen [OF assms(1,2,3), of tag lib r fv] tag
    by (simp add: bind_file_type_error [OF assms(4,5)] bind_binary_type_error [OF assms(4,5)])
  have whole: "Convert lib (Some request) (PointerToStruct (field # rest) destination)
       = (case convertBody lib request (field # rest) destination of
            (Some err, r', v') \<Rightarrow>
              (Some (ConvertBodyFailed err), Some r', PointerToStruct (field # rest) v')
          | (None, r', v') \<Rightarrow>
              (Some (TypeNotSupported (Type field) (Name field)), Some r',
               PointerToStruct (field # rest) (v'(0 := zero (Type field)))))"
    by (simp add: Convert_def step split: prod.splits option.splits)
  have empty: "Convert lib (Some request) (PointerToStruct (field # rest) destination)
          = (Some (TypeNotSupported (Type field) (Name field)), Some request,
             PointerToStruct (field # rest) (destination(0 := zero (Type field))))"
    if "ContentLength request = 0"
    by (simp add: whole convertBody_no_length [OF that])
  from step whole empty show ?thesis by simp
qed

theorem file_tag_on_other_type_is_rejected_witness:
  "Convert_field example_library example_request count_field (VInt 7)
     = Return (Some (TypeNotSupported TInt ''Count'')) example_request (VInt 0)
   \<and> Convert example_library (Some example_request)
        (PointerToStruct [count_field, limit_field] (caller_values [count_field, limit_field]))
     = (Some (TypeNotSupported TInt ''Count''), Some example_request,
        PointerToStruct [count_field, limit_field]
          ((caller_values [count_field, limit_field])(0 := VInt 0)))
   \<and> Convert example_library (Some multipart_request)
        (PointerToStruct [count_field, limit_field] (caller_values [count_field, limit_field]))
     = (Some (TypeNotSupported TInt ''Count''), Some multipart_request,
        PointerToStruct [count_field, limit_field]
          ((caller_values [count_field, limit_field])(0 := VInt 0)))"
proof -
  let ?v = "caller_values [count_field, limit_field]"
  have types: "Type count_field \<noteq> TFile" "Type count_field \<noteq> TPointer TFile"
    by (simp_all add: count_field_facts)
  have len: "ContentLength example_request = 0"
    by (simp add: example_request_def)
  have body: "convertBody example_library multipart_request [count_field, limit_field] ?v
      = (None, multipart_request, ?v)"
    by (simp add: convertBody_def multipart_request_def TrimSpace_def space_runes_def)
  note plain = file_tag_on_other_type_is_rejected [OF count_field_facts(1,2,3) types,
      of example_library example_request "VInt 7" "[limit_field]" 0 ?v]
  note multipart = file_tag_on_other_type_is_rejected [OF count_field_facts(1,2,3) types,
      of example_library multipart_request "VInt 7" "[limit_field]" 0 ?v]
  note step = plain [THEN conjunct1]
  note without_body = plain [THEN conjunct2, THEN conjunct2, THEN conjunct2, THEN mp, OF len]
  have with_body: "Convert example_library (Some multipart_request)
        (PointerToStruct [count_field, limit_field] ?v)
      = (Some (TypeNotSupported (Type count_field) (Name count_field)), Some multipart_request,
         PointerToStruct [count_field, limit_field] (?v(0 := zero (Type count_field))))"
    using multipart [THEN conjunct2, THEN conjunct2, THEN conjunct1] by (simp add: body)
  from step without_body with_body show ?thesis
    by (simp add: count_field_facts(4,5))
qed

text \<open>
  C10 as it is worded fails for a field that also carries a usable \<^verbatim>\<open>form\<close> tag, which
  comes first in the precedence: \<^verbatim>\<open>Count int `form:"page" file:"count"`\<close> is bound
  from the form, and the bind succeeds.
\<close>

theorem file_tag_with_form_tag_counterexample:
  "IsExported count_form_field \<and> CanSet count_form_field
   \<and> Tag count_form_field ''file'' = Some ''count''
   \<and> Type count_form_field \<noteq> TFile \<and> Type count_form_field \<noteq> TPointer TFile
   \<and> Convert example_library (Some example_request)
        (PointerToStruct [count_form_field] (caller_values [count_form_field]))
     = (None, Some example_request,
        PointerToStruct [count_form_field] ((caller_values [count_form_field])(0 := VInt 5)))"
proof -
  let ?v = "caller_values [count_form_field]"
  have step: "Convert_field example_library example_request count_form_field fv
      = Continue example_request (VInt 5)" for fv
    using Convert_field_chosen [OF count_form_field_facts(1,2,3), of "''page''" example_library
        example_request fv] count_form_field_facts(4,5)
    by (simp add: bind_form_def example_request_def count_form_field_def convert.simps
        parse_defs)
  have "convertBody example_library example_request [count_form_field] ?v
      = (None, example_request, ?v)"
    by (simp add: convertBody_no_length example_request_def)
  then have "Convert example_library (Some example_request)
        (PointerToStruct [count_form_field] ?v)
     = (None, Some example_request, PointerToStruct [count_form_field] (?v(0 := VInt 5)))"
    by (simp add: Convert_def step)
  then show ?thesis
    by (simp add: count_form_field_def)
qed

end
